theory Spec2Isabelle
  imports Complex_Main "HOL-Library.AList" "HOL-Library.Sublist"
begin

section \<open>Strings: \<open>str.split()\<close> and \<open>' '.join\<close>\<close>

text \<open>
  Python's \<open>str\<close> is modelled as \<open>string\<close>. \<open>isspace\<close> lists the characters that
  \<open>str.split()\<close> (no argument) treats as separators, restricted to the code points a
  \<open>char\<close> can hold.
\<close>

definition isspace :: "char \<Rightarrow> bool" where
  "isspace c \<longleftrightarrow> List.member
     [CHR 0x09, CHR 0x0A, CHR 0x0B, CHR 0x0C, CHR 0x0D,
      CHR 0x1C, CHR 0x1D, CHR 0x1E, CHR 0x1F, CHR 0x20, CHR 0x85, CHR 0xA0] c"

text \<open>
  \<open>str_split_from cur s\<close> scans \<open>s\<close> with the word read so far in \<open>cur\<close>;
  runs of separators produce no empty word, as in \<open>text.split()\<close>.
\<close>

fun str_split_from :: "string \<Rightarrow> string \<Rightarrow> string list" where
  "str_split_from cur [] = (if cur = [] then [] else [cur])"
| "str_split_from cur (c # cs) =
     (if isspace c
      then (if cur = [] then str_split_from [] cs else cur # str_split_from [] cs)
      else str_split_from (cur @ [c]) cs)"

definition str_split :: "string \<Rightarrow> string list" where
  "str_split s = str_split_from [] s"

text \<open>\<open>sep.join(xs)\<close>.\<close>

fun str_join :: "string \<Rightarrow> string list \<Rightarrow> string" where
  "str_join sep [] = []"
| "str_join sep [x] = x"
| "str_join sep (x # y # ys) = x @ sep @ str_join sep (y # ys)"

section \<open>The chunker: \<open>LambdaProjectIndexer._chunk_text\<close>\<close>

text \<open>
  The loop over \<open>words\<close> with its two accumulators \<open>chunks\<close> and \<open>current_chunk\<close>.
  The test is the source's: the current chunk is joined, split again and counted.
\<close>

fun chunk_loop :: "int \<Rightarrow> string list \<Rightarrow> string list \<Rightarrow> string list
    \<Rightarrow> string list \<times> string list" where
  "chunk_loop max_length [] chunks current_chunk = (chunks, current_chunk)"
| "chunk_loop max_length (word # words) chunks current_chunk =
     (let current_chunk = current_chunk @ [word]
      in if int (length (str_split (str_join '' '' current_chunk))) \<ge> max_length
         then chunk_loop max_length words (chunks @ [str_join '' '' current_chunk]) []
         else chunk_loop max_length words chunks current_chunk)"

definition chunk_text :: "string \<Rightarrow> int \<Rightarrow> string list" where
  "chunk_text text max_length =
     (let words = str_split text;
          (chunks, current_chunk) = chunk_loop max_length words [] [];
          chunks = (if current_chunk \<noteq> [] then chunks @ [str_join '' '' current_chunk]
                    else chunks)
      in if chunks \<noteq> [] then chunks else [text])"


text \<open>A token is what \<open>str.split()\<close> returns: non-empty and free of separators.\<close>

definition is_token :: "string \<Rightarrow> bool" where
  "is_token w \<longleftrightarrow> w \<noteq> [] \<and> list_all (\<lambda>c. \<not> isspace c) w"

section \<open>Errors, vectors and dictionaries\<close>

text \<open>
  Every exception the modelled code can raise is a value. All of them are subclasses of
  Python's \<open>Exception\<close>, so an \<open>except Exception\<close> handler catches each.
\<close>

datatype error =
    OSError string
  | ModelError string
  | ValueError
  | KeyError string
  | FileNotFoundError string
  | DecodeError string

text \<open>
  An embedding is a list of coordinates; the floating-point numbers of numpy are idealised
  as reals. A Python \<open>dict\<close> keeps its keys in insertion order, so it is an association
  list: \<open>d[k] = v\<close> is \<open>AList.update k v d\<close> (replace in place, or append), a lookup
  is \<open>map_of d k\<close>, and the keys of a dictionary are distinct (\<open>dict_ok\<close>).
\<close>

type_synonym vec = "real list"

type_synonym ('k, 'v) dict = "('k \<times> 'v) list"

definition dict_ok :: "('k, 'v) dict \<Rightarrow> bool" where
  "dict_ok d \<longleftrightarrow> distinct (map fst d)"

definition dict_keys :: "('k, 'v) dict \<Rightarrow> 'k list" where
  "dict_keys d = map fst d"

text \<open>\<open>{k: v for k, v in items}\<close>: the dictionary built from a sequence of items.\<close>

definition dict_of_items :: "('k \<times> 'v) list \<Rightarrow> ('k, 'v) dict" where
  "dict_of_items items = foldl (\<lambda>d (k, v). AList.update k v d) [] items"

text \<open>Python's \<open>xs[:k]\<close>; a negative \<open>k\<close> counts from the end.\<close>

definition py_slice_to :: "'a list \<Rightarrow> int \<Rightarrow> 'a list" where
  "py_slice_to xs k =
     (if k \<ge> 0 then take (nat k) xs else take (nat (int (length xs) + k)) xs)"

text \<open>
  \<open>sorted(xs, key=f, reverse=True)\<close>. CPython reverses the list, sorts it with its stable
  ascending sort and reverses the outcome, which keeps equal keys in their original order.
\<close>

definition sorted_reverse :: "('a \<Rightarrow> 's::linorder) \<Rightarrow> 'a list \<Rightarrow> 'a list" where
  "sorted_reverse f xs = rev (sort_key f (rev xs))"

section \<open>Paths\<close>

text \<open>\<open>os.path.join(a, b)\<close> of \<open>posixpath\<close>.\<close>

definition os_path_join :: "string \<Rightarrow> string \<Rightarrow> string" where
  "os_path_join a b =
     (if b \<noteq> [] \<and> hd b = CHR ''/'' then b
      else if a = [] \<or> last a = CHR ''/'' then a @ b
      else a @ ''/'' @ b)"

text \<open>
  \<open>os.path.relpath(filepath, start)\<close>, for the only calls the source makes: \<open>filepath\<close>
  was built by \<open>os.path.join\<close> from \<open>start\<close> and the names of directory entries, so the
  relative path is what follows \<open>start\<close> and its separator.
\<close>

definition relpath :: "string \<Rightarrow> string \<Rightarrow> string" where
  "relpath filepath start = dropWhile (\<lambda>c. c = CHR ''/'') (drop (length start) filepath)"

text \<open>\<open>s.split(sep)\<close> for a one-character separator (empty pieces are kept).\<close>

fun split_on :: "char \<Rightarrow> string \<Rightarrow> string \<Rightarrow> string list" where
  "split_on sep cur [] = [cur]"
| "split_on sep cur (c # cs) =
     (if c = sep then cur # split_on sep [] cs else split_on sep (cur @ [c]) cs)"

text \<open>
  \<open>Path(p).parts\<close>, \<open>Path(p).name\<close> and \<open>Path(p).suffix\<close> of \<open>pathlib\<close> (POSIX flavour):
  empty and \<open>.\<close> components vanish, a leading slash is a part of its own, the name is the
  last component, and the suffix starts at the last dot of the name unless that dot is the
  name's first or last character.
\<close>

definition path_components :: "string \<Rightarrow> string list" where
  "path_components p = filter (\<lambda>s. s \<noteq> [] \<and> s \<noteq> ''.'') (split_on CHR ''/'' [] p)"

definition path_parts :: "string \<Rightarrow> string list" where
  "path_parts p =
     (if p \<noteq> [] \<and> hd p = CHR ''/'' then [''/''] else []) @ path_components p"

definition path_name :: "string \<Rightarrow> string" where
  "path_name p = (if path_components p = [] then [] else last (path_components p))"

definition path_suffix :: "string \<Rightarrow> string" where
  "path_suffix p =
     (let name = path_name p;
          ext = takeWhile (\<lambda>c. c \<noteq> CHR ''.'') (rev name);
          i = length name - length ext - 1
      in if List.member name CHR ''.'' \<and> 0 < i \<and> i < length name - 1
         then drop i name else [])"

section \<open>The world outside the program\<close>

text \<open>
  The project tree is a list of directory entries; \<open>read_file\<close> and \<open>getsize\<close> give what
  \<open>open(filepath).read()\<close> and \<open>os.path.getsize(filepath)\<close> return or raise.
\<close>

datatype entry = File string | Dir string "entry list"

record filesystem =
  listing :: "entry list"
  read_file :: "string \<Rightarrow> error + string"
  getsize :: "string \<Rightarrow> error + nat"

fun file_names :: "entry list \<Rightarrow> string list" where
  "file_names [] = []"
| "file_names (File n # es) = n # file_names es"
| "file_names (Dir d sub # es) = file_names es"

text \<open>
  \<open>os.walk(dirpath)\<close>, top-down: the directory itself with its files, then each kept
  subdirectory in turn. The caller prunes \<open>dirs\<close> in place while the walk runs; \<open>keep\<close>
  is that filter. Listing errors are swallowed by \<open>os.walk\<close> and absent here.
\<close>

fun os_walk :: "(string \<Rightarrow> bool) \<Rightarrow> string \<Rightarrow> entry list \<Rightarrow> (string \<times> string list) list"
  and walk_dirs :: "(string \<Rightarrow> bool) \<Rightarrow> string \<Rightarrow> entry list \<Rightarrow> (string \<times> string list) list"
where
  "os_walk keep dirpath es = (dirpath, file_names es) # walk_dirs keep dirpath es"
| "walk_dirs keep dirpath [] = []"
| "walk_dirs keep dirpath (File n # es) = walk_dirs keep dirpath es"
| "walk_dirs keep dirpath (Dir d sub # es) =
     (if keep d then os_walk keep (os_path_join dirpath d) sub else []) @ walk_dirs keep dirpath es"

text \<open>
  The two index artifacts live on a disk of named files. A write can fail
  (\<open>write_error\<close>); a file that cannot be written keeps its old content.
\<close>

record file_meta =
  absolute_path :: string
  extension :: string
  file_size :: nat

datatype artifact = Npz "(string, vec) dict" | Json "(string, file_meta) dict"

record disk =
  contents :: "string \<Rightarrow> artifact option"
  write_error :: "string \<Rightarrow> error option"

definition write_file :: "disk \<Rightarrow> string \<Rightarrow> artifact \<Rightarrow> error + disk" where
  "write_file d name a =
     (case write_error d name of
        Some e \<Rightarrow> Inl e
      | None \<Rightarrow> Inr (d\<lparr>contents := (contents d)(name \<mapsto> a)\<rparr>))"

section \<open>The indexer: \<open>LambdaProjectIndexer\<close>\<close>

text \<open>
  The object's two dictionaries. The tokenizer and the model are one parameter \<open>model\<close>
  of the functions below: the text of a chunk or query to its mean-pooled vector, or the
  exception the call raises.
\<close>

record lambda_indexer =
  embeddings :: "(string, vec) dict"
  metadata :: "(string, file_meta) dict"

definition init_indexer :: lambda_indexer where
  "init_indexer = \<lparr>embeddings = [], metadata = []\<rparr>"

definition indexer_ok :: "lambda_indexer \<Rightarrow> bool" where
  "indexer_ok ix \<longleftrightarrow> dict_ok (embeddings ix) \<and> dict_ok (metadata ix)"

subsection \<open>\<open>embed_file\<close>\<close>

text \<open>The loop over the chunks: the first failing chunk raises.\<close>

fun embed_chunks :: "(string \<Rightarrow> error + vec) \<Rightarrow> string list \<Rightarrow> error + vec list" where
  "embed_chunks model [] = Inr []"
| "embed_chunks model (chunk # chunks) =
     (case model chunk of
        Inl e \<Rightarrow> Inl e
      | Inr embedding \<Rightarrow>
          (case embed_chunks model chunks of
             Inl e \<Rightarrow> Inl e
           | Inr chunk_embeddings \<Rightarrow> Inr (embedding # chunk_embeddings)))"

text \<open>
  \<open>np.mean(arrays, axis=0)\<close>: arrays of different shapes raise \<open>ValueError\<close>; otherwise the
  arrays are summed coordinate by coordinate and divided by their number. On an empty list
  numpy yields \<open>nan\<close>; \<open>embed_file\<close> never passes one, and the model gives the empty
  vector there.
\<close>

definition vec_add :: "vec \<Rightarrow> vec \<Rightarrow> vec" where
  "vec_add a b = map2 (+) a b"

definition np_mean_axis0 :: "vec list \<Rightarrow> error + vec" where
  "np_mean_axis0 arrays =
     (case arrays of
        [] \<Rightarrow> Inr []
      | a # as \<Rightarrow>
          if list_all (\<lambda>b. length b = length a) as
          then Inr (map (\<lambda>x. x / real (length arrays)) (foldl vec_add a as))
          else Inl ValueError)"

definition embed_file ::
  "(string \<Rightarrow> error + vec) \<Rightarrow> filesystem \<Rightarrow> string \<Rightarrow> error + vec" where
  "embed_file model fs filepath =
     (case read_file fs filepath of
        Inl e \<Rightarrow> Inl e
      | Inr content \<Rightarrow>
          (case embed_chunks model (chunk_text content 512) of
             Inl e \<Rightarrow> Inl e
           | Inr chunk_embeddings \<Rightarrow> np_mean_axis0 chunk_embeddings))"

text \<open>The aggregation rule in the specification's words: the mean of each coordinate.\<close>

definition elementwise_mean :: "nat \<Rightarrow> vec list \<Rightarrow> vec" where
  "elementwise_mean n vs =
     map (\<lambda>i. sum_list (map (\<lambda>v. v ! i) vs) / real (length vs)) [0..<n]"

subsection \<open>\<open>index_project\<close>\<close>

definition extensions :: "string list" where
  "extensions = [''.py'', ''.md'', ''.json'', ''.yaml'', ''.yml'', ''.txt'']"

definition skipped_dirs :: "string list" where
  "skipped_dirs = [''venv'', ''__pycache__'', ''.git'', ''node_modules'', ''.venv'']"

text \<open>
  The body of the \<open>try\<close> for one file, with its \<open>except Exception\<close>: an exception leaves
  the object as the statements before it made it. The two \<open>print\<close> calls are not modelled.
\<close>

definition index_file ::
  "(string \<Rightarrow> error + vec) \<Rightarrow> filesystem \<Rightarrow> string \<Rightarrow> string \<Rightarrow> string
    \<Rightarrow> lambda_indexer \<Rightarrow> lambda_indexer" where
  "index_file model fs project_path root_dir file ix =
     (let filepath = os_path_join root_dir file
      in case embed_file model fs filepath of
           Inl e \<Rightarrow> ix
         | Inr embedding \<Rightarrow>
             (let rel_path = relpath filepath project_path;
                  ix1 = ix\<lparr>embeddings := AList.update rel_path embedding (embeddings ix)\<rparr>
              in case getsize fs filepath of
                   Inl e \<Rightarrow> ix1
                 | Inr sz \<Rightarrow>
                     ix1\<lparr>metadata :=
                       AList.update rel_path
                         \<lparr>absolute_path = filepath, extension = path_suffix file, file_size = sz\<rparr>
                         (metadata ix1)\<rparr>))"

text \<open>The inner loop over \<open>files\<close> and the outer loop over the walk.\<close>

fun index_files ::
  "(string \<Rightarrow> error + vec) \<Rightarrow> filesystem \<Rightarrow> string \<Rightarrow> string \<Rightarrow> string list
    \<Rightarrow> lambda_indexer \<Rightarrow> lambda_indexer" where
  "index_files model fs project_path root_dir [] ix = ix"
| "index_files model fs project_path root_dir (file # files) ix =
     index_files model fs project_path root_dir files
       (if List.member extensions (path_suffix file)
        then index_file model fs project_path root_dir file ix
        else ix)"

fun index_walk ::
  "(string \<Rightarrow> error + vec) \<Rightarrow> filesystem \<Rightarrow> string \<Rightarrow> (string \<times> string list) list
    \<Rightarrow> lambda_indexer \<Rightarrow> lambda_indexer" where
  "index_walk model fs project_path [] ix = ix"
| "index_walk model fs project_path ((root_dir, files) # rest) ix =
     index_walk model fs project_path rest (index_files model fs project_path root_dir files ix)"

definition index_project ::
  "(string \<Rightarrow> error + vec) \<Rightarrow> filesystem \<Rightarrow> string \<Rightarrow> lambda_indexer \<Rightarrow> lambda_indexer"
  where
  "index_project model fs project_path ix =
     index_walk model fs project_path
       (os_walk (\<lambda>d. \<not> List.member skipped_dirs d) project_path (listing fs)) ix"

text \<open>
  The files the walk offers to the \<open>try\<close> block, in order, each with the \<open>root\<close> it was
  found under.
\<close>

definition candidates :: "filesystem \<Rightarrow> string \<Rightarrow> (string \<times> string) list" where
  "candidates fs project_path =
     concat (map (\<lambda>(root_dir, files).
                    map (\<lambda>file. (root_dir, file))
                      (filter (\<lambda>file. List.member extensions (path_suffix file)) files))
              (os_walk (\<lambda>d. \<not> List.member skipped_dirs d) project_path (listing fs)))"

definition index_all ::
  "(string \<Rightarrow> error + vec) \<Rightarrow> filesystem \<Rightarrow> string \<Rightarrow> (string \<times> string) list
    \<Rightarrow> lambda_indexer \<Rightarrow> lambda_indexer" where
  "index_all model fs project_path cs ix =
     foldl (\<lambda>ix (root_dir, file). index_file model fs project_path root_dir file ix) ix cs"

subsection \<open>\<open>search\<close>\<close>

text \<open>
  The score of a stored vector is \<open>sim query_embedding embedding\<close>. The source computes
  the cosine with numpy and converts it to a Python float; \<open>sim\<close> stands for that
  computation, into any linearly ordered type (which leaves \<open>nan\<close> out).
  \<open>cosine_similarity\<close> is the formula of the source over the reals.
\<close>

definition dot :: "vec \<Rightarrow> vec \<Rightarrow> real" where
  "dot a b = sum_list (map2 (*) a b)"

definition cosine_similarity :: "vec \<Rightarrow> vec \<Rightarrow> real" where
  "cosine_similarity q e = dot q e / (sqrt (dot q q) * sqrt (dot e e))"

record 's search_result =
  result_file :: string
  score :: 's
  result_metadata :: file_meta

text \<open>The loop that fills \<open>similarities\<close>, a dictionary of its own.\<close>

definition similarities :: "(vec \<Rightarrow> vec \<Rightarrow> 's) \<Rightarrow> vec \<Rightarrow> (string, vec) dict \<Rightarrow> (string, 's) dict"
  where
  "similarities sim query_embedding embs =
     foldl (\<lambda>d (filepath, embedding). AList.update filepath (sim query_embedding embedding) d)
       [] embs"

definition top_files ::
  "(vec \<Rightarrow> vec \<Rightarrow> 's::linorder) \<Rightarrow> vec \<Rightarrow> (string, vec) dict \<Rightarrow> int \<Rightarrow> (string \<times> 's) list"
  where
  "top_files sim query_embedding embs top_k =
     py_slice_to (sorted_reverse snd (similarities sim query_embedding embs)) top_k"

text \<open>The loop that builds \<open>results\<close>; \<open>self.metadata[filepath]\<close> raises on a missing key.\<close>

fun build_results :: "(string, file_meta) dict \<Rightarrow> (string \<times> 's) list
    \<Rightarrow> error + 's search_result list" where
  "build_results md [] = Inr []"
| "build_results md ((filepath, sc) # rest) =
     (case map_of md filepath of
        None \<Rightarrow> Inl (KeyError filepath)
      | Some m \<Rightarrow>
          (case build_results md rest of
             Inl e \<Rightarrow> Inl e
           | Inr results \<Rightarrow>
               Inr (\<lparr>result_file = filepath, score = sc, result_metadata = m\<rparr> # results)))"

definition search ::
  "(vec \<Rightarrow> vec \<Rightarrow> 's::linorder) \<Rightarrow> (string \<Rightarrow> error + vec) \<Rightarrow> lambda_indexer \<Rightarrow> string \<Rightarrow> int
    \<Rightarrow> error + 's search_result list" where
  "search sim model ix query top_k =
     (case model query of
        Inl e \<Rightarrow> Inl e
      | Inr query_embedding \<Rightarrow>
          build_results (metadata ix) (top_files sim query_embedding (embeddings ix) top_k))"

subsection \<open>\<open>save_index\<close> and \<open>load_index\<close>\<close>

text \<open>
  Both return the exception raised, if any, with the state left behind. \<open>np.savez\<close>,
  \<open>np.load\<close>, \<open>json.dump\<close> and \<open>json.load\<close> are library code: an artifact holds the items
  written, in order, and reading the wrong kind of file raises.
\<close>

definition save_index :: "lambda_indexer \<Rightarrow> string \<Rightarrow> disk \<Rightarrow> error option \<times> disk" where
  "save_index ix output_path d =
     (case write_file d (output_path @ ''_embeddings.npz'') (Npz (embeddings ix)) of
        Inl e \<Rightarrow> (Some e, d)
      | Inr d1 \<Rightarrow>
          (case write_file d1 (output_path @ ''_metadata.json'') (Json (metadata ix)) of
             Inl e \<Rightarrow> (Some e, d1)
           | Inr d2 \<Rightarrow> (None, d2)))"

definition np_load :: "disk \<Rightarrow> string \<Rightarrow> error + (string, vec) dict" where
  "np_load d name =
     (case contents d name of
        None \<Rightarrow> Inl (FileNotFoundError name)
      | Some (Npz items) \<Rightarrow> Inr items
      | Some (Json doc) \<Rightarrow> Inl (DecodeError name))"

definition json_load :: "disk \<Rightarrow> string \<Rightarrow> error + (string, file_meta) dict" where
  "json_load d name =
     (case contents d name of
        None \<Rightarrow> Inl (FileNotFoundError name)
      | Some (Json doc) \<Rightarrow> Inr (dict_of_items doc)
      | Some (Npz items) \<Rightarrow> Inl (DecodeError name))"

definition load_index ::
  "lambda_indexer \<Rightarrow> string \<Rightarrow> disk \<Rightarrow> error option \<times> lambda_indexer" where
  "load_index ix input_path d =
     (case np_load d (input_path @ ''_embeddings.npz'') of
        Inl e \<Rightarrow> (Some e, ix)
      | Inr data \<Rightarrow>
          (let ix1 = ix\<lparr>embeddings := dict_of_items data\<rparr>
           in case json_load d (input_path @ ''_metadata.json'') of
                Inl e \<Rightarrow> (Some e, ix1)
              | Inr doc \<Rightarrow> (None, ix1\<lparr>metadata := doc\<rparr>)))"

text \<open>Closeness of two stored vectors, coordinate by coordinate.\<close>

definition within_tolerance :: "real \<Rightarrow> vec \<Rightarrow> vec \<Rightarrow> bool" where
  "within_tolerance eps v w \<longleftrightarrow> list_all2 (\<lambda>x y. \<bar>x - y\<bar> \<le> eps) v w"

section \<open>The watcher: \<open>ProjectFileHandler\<close>\<close>

record event =
  src_path :: string
  is_directory :: bool

record handler =
  indexer :: lambda_indexer
  project_path :: string
  last_reindex :: real
  reindex_delay :: real

definition init_handler :: "lambda_indexer \<Rightarrow> string \<Rightarrow> handler" where
  "init_handler ix path =
     \<lparr>indexer = ix, project_path = path, last_reindex = 0, reindex_delay = 2\<rparr>"

definition should_index :: "string \<Rightarrow> bool" where
  "should_index filepath =
     (if list_ex (\<lambda>part. List.member skipped_dirs part) (path_parts filepath) then False
      else List.member extensions (path_suffix filepath))"

text \<open>
  \<open>current_time\<close> is what \<open>time.time()\<close> returns when the handler starts. The handler
  object keeps the indexer, whose dictionaries \<open>index_project\<close> has changed by the time
  \<open>save_index\<close> may raise.
\<close>

definition trigger_reindex ::
  "(string \<Rightarrow> error + vec) \<Rightarrow> filesystem \<Rightarrow> real \<Rightarrow> handler \<Rightarrow> disk \<Rightarrow> event
    \<Rightarrow> handler \<times> disk" where
  "trigger_reindex model fs current_time h d ev =
     (if current_time - last_reindex h < reindex_delay h then (h, d)
      else if should_index (src_path ev) then
        (let ix = index_project model fs (project_path h) (indexer h)
         in case save_index ix ''lambda_index'' d of
              (None, d') \<Rightarrow> (h\<lparr>indexer := ix, last_reindex := current_time\<rparr>, d')
            | (Some e, d') \<Rightarrow> (h\<lparr>indexer := ix\<rparr>, d'))
      else (h, d))"

definition on_modified ::
  "(string \<Rightarrow> error + vec) \<Rightarrow> filesystem \<Rightarrow> real \<Rightarrow> handler \<Rightarrow> disk \<Rightarrow> event
    \<Rightarrow> handler \<times> disk" where
  "on_modified model fs current_time h d ev =
     (if \<not> is_directory ev then trigger_reindex model fs current_time h d ev else (h, d))"

definition on_created ::
  "(string \<Rightarrow> error + vec) \<Rightarrow> filesystem \<Rightarrow> real \<Rightarrow> handler \<Rightarrow> disk \<Rightarrow> event
    \<Rightarrow> handler \<times> disk" where
  "on_created model fs current_time h d ev =
     (if \<not> is_directory ev then trigger_reindex model fs current_time h d ev else (h, d))"

definition on_deleted ::
  "(string \<Rightarrow> error + vec) \<Rightarrow> filesystem \<Rightarrow> real \<Rightarrow> handler \<Rightarrow> disk \<Rightarrow> event
    \<Rightarrow> handler \<times> disk" where
  "on_deleted model fs current_time h d ev =
     (if \<not> is_directory ev then trigger_reindex model fs current_time h d ev else (h, d))"

text \<open>
  The clock while a handler runs: \<open>reindex_runs\<close> says that the handler gets past its two
  tests, and \<open>finished_at duration\<close> is the clock when the handler returns, if
  \<open>index_project\<close> and \<open>save_index\<close> together take \<open>duration\<close>.
\<close>

definition reindex_runs :: "real \<Rightarrow> handler \<Rightarrow> event \<Rightarrow> bool" where
  "reindex_runs current_time h ev \<longleftrightarrow>
     \<not> current_time - last_reindex h < reindex_delay h \<and> should_index (src_path ev)"

definition finished_at :: "real \<Rightarrow> real \<Rightarrow> handler \<Rightarrow> event \<Rightarrow> real" where
  "finished_at duration current_time h ev =
     (if reindex_runs current_time h ev then current_time + duration else current_time)"

section \<open>Example values\<close>

text \<open>
  Concrete models, stores, disks and project trees on which the theorems below are
  instantiated. \<open>long_text\<close> has 513 words, so it is cut into two chunks of 512 words
  and of one word.
\<close>

definition example_model :: "string \<Rightarrow> error + vec" where
  "example_model t =
     (if t = ''bad'' then Inl (ModelError ''bad'') else Inr [real (length t), 0])"

definition example_meta :: "string \<Rightarrow> file_meta" where
  "example_meta name =
     \<lparr>absolute_path = ''/p/'' @ name, extension = path_suffix name, file_size = 1\<rparr>"

definition example_indexer :: lambda_indexer where
  "example_indexer =
     \<lparr>embeddings = [(''a.py'', [1, 0]), (''b.md'', [0, 1]), (''c.txt'', [1, 0])],
      metadata = [(''a.py'', example_meta ''a.py''), (''b.md'', example_meta ''b.md''),
                  (''c.txt'', example_meta ''c.txt'')]\<rparr>"

definition unmatched_indexer :: lambda_indexer where
  "unmatched_indexer = \<lparr>embeddings = [(''a.py'', [1, 0])], metadata = []\<rparr>"

definition unmatched_disk :: disk where
  "unmatched_disk =
     \<lparr>contents = (\<lambda>name. None)(''lambda_index_embeddings.npz'' \<mapsto> Npz [(''a.py'', [1, 0])],
                                  ''lambda_index_metadata.json'' \<mapsto> Json []),
      write_error = (\<lambda>name. None)\<rparr>"

definition empty_disk :: disk where
  "empty_disk = \<lparr>contents = (\<lambda>name. None), write_error = (\<lambda>name. None)\<rparr>"

definition metadata_only_disk :: disk where
  "metadata_only_disk =
     \<lparr>contents = (\<lambda>name. None)(''lambda_index_metadata.json'' \<mapsto> Json []),
      write_error = (\<lambda>name. None)\<rparr>"

definition vectors_only_disk :: disk where
  "vectors_only_disk =
     \<lparr>contents = (\<lambda>name. None)(''lambda_index_embeddings.npz'' \<mapsto> Npz [(''a.py'', [1, 0])]),
      write_error = (\<lambda>name. None)\<rparr>"

definition word_count_model :: "string \<Rightarrow> error + vec" where
  "word_count_model t = Inr [real (length (str_split t)), 1]"

definition long_text :: string where
  "long_text = str_join '' '' (replicate 512 ''a'' @ [''bb''])"

definition example_fs :: filesystem where
  "example_fs =
     \<lparr>listing = [File ''a.py'', File ''bad.py'', File ''notes.bin'',
                 Dir ''venv'' [File ''x.py''], Dir ''src'' [File ''big.txt'']],
      read_file = (\<lambda>p. if p = ''/p/a.py'' then Inr ''alpha beta''
                         else if p = ''/p/src/big.txt'' then Inr long_text
                         else Inl (OSError p)),
      getsize = (\<lambda>p. Inr (if p = ''/p/a.py'' then 10 else 1025))\<rparr>"

definition deleted_fs :: filesystem where
  "deleted_fs =
     \<lparr>listing = [File ''bad.py'', File ''notes.bin'',
                 Dir ''venv'' [File ''x.py''], Dir ''src'' [File ''big.txt'']],
      read_file = (\<lambda>p. if p = ''/p/src/big.txt'' then Inr long_text else Inl (OSError p)),
      getsize = (\<lambda>p. Inr 1025)\<rparr>"

definition indexed_example :: lambda_indexer where
  "indexed_example =
     \<lparr>embeddings = [(''a.py'', [2, 1]), (''src/big.txt'', [513 / 2, 1])],
      metadata = [(''a.py'', \<lparr>absolute_path = ''/p/a.py'', extension = ''.py'', file_size = 10\<rparr>),
                  (''src/big.txt'',
                   \<lparr>absolute_path = ''/p/src/big.txt'', extension = ''.txt'', file_size = 1025\<rparr>)]\<rparr>"

definition recent_handler :: handler where
  "recent_handler =
     \<lparr>indexer = indexed_example, project_path = ''/p'', last_reindex = 100, reindex_delay = 2\<rparr>"

section \<open>Properties of the chunker\<close>

lemma isspace_space: "isspace CHR '' ''"
  by (simp add: isspace_def)

lemma str_split_from_sep:
  "isspace sp \<Longrightarrow>
   str_split_from cur (a @ sp # b) = str_split_from cur a @ str_split_from [] b"
  by (induction a arbitrary: cur) simp_all

lemma str_split_append_space:
  "str_split (a @ '' '' @ b) = str_split a @ str_split b"
  using str_split_from_sep [OF isspace_space, of "[]" a b]
  by (simp add: str_split_def)

lemma str_split_join: "str_split (str_join '' '' xs) = concat (map str_split xs)"
proof (induction "'' ''" xs rule: str_join.induct)
  case 1
  show ?case by (simp add: str_split_def)
next
  case (2 x)
  show ?case by simp
next
  case (3 x y ys)
  then show ?case using str_split_append_space [of x "str_join '' '' (y # ys)"] by simp
qed

lemma str_split_from_nospace:
  "list_all (\<lambda>c. \<not> isspace c) w \<Longrightarrow>
   str_split_from cur w = (if cur @ w = [] then [] else [cur @ w])"
  by (induction w arbitrary: cur) simp_all

lemma str_split_token: "is_token w \<Longrightarrow> str_split w = [w]"
  by (simp add: is_token_def str_split_def str_split_from_nospace)

lemma concat_split_tokens: "list_all is_token ws \<Longrightarrow> concat (map str_split ws) = ws"
  by (induction ws) (simp_all add: str_split_token)

lemma str_split_join_tokens: "list_all is_token ws \<Longrightarrow> str_split (str_join '' '' ws) = ws"
  by (simp add: str_split_join concat_split_tokens)

lemma str_split_from_tokens:
  "list_all (\<lambda>c. \<not> isspace c) cur \<Longrightarrow> list_all is_token (str_split_from cur s)"
  by (induction s arbitrary: cur) (simp_all add: is_token_def)

lemma str_split_tokens: "list_all is_token (str_split s)"
  by (simp add: str_split_def str_split_from_tokens)

lemma chunk_loop_tokens:
  "list_all is_token words \<Longrightarrow> list_all is_token cur \<Longrightarrow>
   chunk_loop m words chunks cur = (chunks', cur') \<Longrightarrow>
   list_all is_token cur' \<and>
   concat (map str_split chunks') @ cur' = concat (map str_split chunks) @ cur @ words"
proof (induction m words chunks cur rule: chunk_loop.induct)
  case (1 m chunks cur)
  then show ?case by simp
next
  case (2 m word words chunks cur)
  let ?cc = "cur @ [word]"
  have tok: "list_all is_token ?cc" using 2 by simp
  show ?case
  proof (cases "int (length (str_split (str_join '' '' ?cc))) \<ge> m")
    case True
    with 2 tok show ?thesis by (simp add: str_split_join_tokens)
  next
    case False
    with 2 tok show ?thesis by simp
  qed
qed

text \<open>
  Claim C3. For every input text and every \<open>max_words\<close> (in particular every
  \<open>max_words \<ge> 1\<close>), joining the chunks that \<open>_chunk_text\<close> returns with single spaces
  and splitting the outcome on whitespace gives exactly the whitespace-delimited tokens of
  the input, in order.
\<close>

theorem chunk_text_roundtrip:
  "str_split (str_join '' '' (chunk_text text max_words)) = str_split text"
proof -
  obtain chunks cur where loop: "chunk_loop max_words (str_split text) [] [] = (chunks, cur)"
    by (cases "chunk_loop max_words (str_split text) [] []")
  from chunk_loop_tokens [OF str_split_tokens _ loop]
  have tok: "list_all is_token cur"
    and eq: "concat (map str_split chunks) @ cur = str_split text" by simp_all
  show ?thesis
  proof (cases "cur = []")
    case True
    with eq loop show ?thesis
      by (cases "chunks = []") (simp_all add: chunk_text_def str_split_join)
  next
    case False
    with eq loop tok show ?thesis
      by (simp add: chunk_text_def str_split_join concat_split_tokens)
  qed
qed

section \<open>Dictionaries, sorting and slicing\<close>

lemma update_fresh: "k \<notin> fst ` set al \<Longrightarrow> AList.update k v al = al @ [(k, v)]"
  by (induction al) auto

lemma foldl_update_distinct:
  "distinct (map fst acc @ map fst xs) \<Longrightarrow>
   foldl (\<lambda>d (k, v). AList.update k (f v) d) acc xs = acc @ map (\<lambda>(k, v). (k, f v)) xs"
proof (induction xs arbitrary: acc)
  case Nil
  then show ?case by simp
next
  case (Cons x xs)
  obtain k v where x: "x = (k, v)" by (cases x)
  from Cons.prems x have fresh: "k \<notin> fst ` set acc" by auto
  from Cons.prems x have "distinct (map fst (acc @ [(k, f v)]) @ map fst xs)" by auto
  from Cons.IH [OF this] show ?case using x fresh by (simp add: update_fresh)
qed

lemma similarities_distinct:
  "dict_ok embs \<Longrightarrow> similarities sim q embs = map (\<lambda>(p, e). (p, sim q e)) embs"
  using foldl_update_distinct [of "[]" embs "sim q"]
  by (simp add: similarities_def dict_ok_def)

lemma dict_of_items_distinct: "dict_ok items \<Longrightarrow> dict_of_items items = items"
  using foldl_update_distinct [of "[]" items "\<lambda>v. v"]
  by (simp add: dict_of_items_def dict_ok_def)

lemma length_sorted_reverse: "length (sorted_reverse f xs) = length xs"
  by (simp add: sorted_reverse_def)

lemma set_sorted_reverse: "set (sorted_reverse f xs) = set xs"
  by (simp add: sorted_reverse_def)

lemma sorted_reverse_desc: "sorted_wrt (\<ge>) (map f (sorted_reverse f xs))"
proof -
  have "sorted (map f (sort_key f (rev xs)))" by simp
  then have "sorted (rev (map f (sorted_reverse f xs)))"
    by (simp add: sorted_reverse_def rev_map)
  then show ?thesis by (simp add: sorted_wrt_rev)
qed

lemma sorted_reverse_stable:
  "filter (\<lambda>x. f x = s) (sorted_reverse f xs) = filter (\<lambda>x. f x = s) xs"
proof -
  have "filter (\<lambda>x. f x = s) (sort_key f (rev xs)) = filter (\<lambda>x. f x = s) (rev xs)"
    by (rule sort_key_stable)
  then show ?thesis by (simp add: sorted_reverse_def rev_filter [symmetric])
qed

lemma filter_take_prefix: "prefix (filter P (take n xs)) (filter P xs)"
proof -
  have "filter P xs = filter P (take n xs) @ filter P (drop n xs)"
    by (metis append_take_drop_id filter_append)
  then show ?thesis by (metis prefixI)
qed

lemma build_results_ok:
  "list_all (\<lambda>(p, s). map_of md p \<noteq> None) tf \<Longrightarrow>
   \<exists>rs. build_results md tf = Inr rs \<and> map (\<lambda>r. (result_file r, score r)) rs = tf \<and>
        list_all (\<lambda>r. map_of md (result_file r) = Some (result_metadata r)) rs"
proof (induction tf)
  case Nil
  then show ?case by simp
next
  case (Cons x tf)
  obtain p s where x: "x = (p, s)" by (cases x)
  from Cons x obtain m where m: "map_of md p = Some m" by auto
  from Cons obtain rs where rs: "build_results md tf = Inr rs"
    "map (\<lambda>r. (result_file r, score r)) rs = tf"
    "list_all (\<lambda>r. map_of md (result_file r) = Some (result_metadata r)) rs" by auto
  show ?case using x m rs by simp
qed

lemma build_results_missing:
  "(p, s) \<in> set tf \<Longrightarrow> map_of md p = None \<Longrightarrow>
   \<exists>p'. build_results md tf = Inl (KeyError p') \<and> p' \<in> fst ` set tf \<and> map_of md p' = None"
proof (induction tf)
  case Nil
  then show ?case by simp
next
  case (Cons x tf)
  obtain p0 s0 where x: "x = (p0, s0)" by (cases x)
  show ?case
  proof (cases "map_of md p0")
    case None
    with x show ?thesis by auto
  next
    case (Some m)
    with Cons x have "(p, s) \<in> set tf" by auto
    from Cons.IH [OF this Cons.prems(2)] obtain p' where
      "build_results md tf = Inl (KeyError p')" "p' \<in> fst ` set tf" "map_of md p' = None" by auto
    with x Some show ?thesis by auto
  qed
qed

lemma length_update_le: "length (AList.update k v al) \<le> Suc (length al)"
  by (induction al) auto

lemma length_foldl_update_le:
  "length (foldl (\<lambda>d (k, v). AList.update k (f v) d) acc xs) \<le> length acc + length xs"
proof (induction xs arbitrary: acc)
  case Nil
  show ?case by simp
next
  case (Cons x xs)
  obtain k v where x: "x = (k, v)" by (cases x)
  have "length (foldl (\<lambda>d (k, v). AList.update k (f v) d) (AList.update k (f v) acc) xs)
      \<le> length (AList.update k (f v) acc) + length xs" by (rule Cons.IH)
  also have "\<dots> \<le> Suc (length acc) + length xs"
    using length_update_le [of k "f v" acc] by simp
  finally show ?case using x by simp
qed

lemma length_similarities_le: "length (similarities sim q embs) \<le> length embs"
  using length_foldl_update_le [of "sim q" "[]" embs] by (simp add: similarities_def)

lemma example_model_q: "example_model ''q'' = Inr [1, 0]"
  by (simp add: example_model_def)

lemma unmatched_top_files:
  "top_files cosine_similarity [1, 0] (embeddings unmatched_indexer) 1 = [(''a.py'', 1)]"
  by (simp add: unmatched_indexer_def top_files_def similarities_def sorted_reverse_def
      py_slice_to_def cosine_similarity_def dot_def)

section \<open>Properties of \<open>search\<close>\<close>

text \<open>
  Claim C1, as amended. For every index store whose embedded paths all have a metadata
  entry, every query the model embeds and every \<open>top_k \<ge> 0\<close>, \<open>search\<close> returns a
  sequence of length \<open>min(top_k, number of stored embeddings)\<close>, in non-increasing
  order of score; the results of any one score are, in order, the first stored paths of
  that score, so ties keep the iteration order of the dictionary. Each result carries the
  score of its own stored vector and its metadata entry.
\<close>

theorem search_ranked:
  assumes ok: "dict_ok (embeddings ix)"
    and q: "model query = Inr q"
    and k: "0 \<le> top_k"
    and md: "list_all (\<lambda>p. map_of (metadata ix) p \<noteq> None) (dict_keys (embeddings ix))"
  shows "\<exists>results. search sim model ix query top_k = Inr results
      \<and> length results = min (nat top_k) (length (embeddings ix))
      \<and> sorted_wrt (\<ge>) (map score results)
      \<and> (\<forall>s. prefix (map result_file (filter (\<lambda>r. score r = s) results))
                 (map fst (filter (\<lambda>(p, e). sim q e = s) (embeddings ix))))
      \<and> list_all (\<lambda>r. \<exists>e. map_of (embeddings ix) (result_file r) = Some e
                         \<and> score r = sim q e
                         \<and> map_of (metadata ix) (result_file r) = Some (result_metadata r))
           results"
proof -
  let ?sims = "map (\<lambda>(p, e). (p, sim q e)) (embeddings ix)"
  let ?ranked = "sorted_reverse snd ?sims"
  let ?tf = "top_files sim q (embeddings ix) top_k"
  have tf: "?tf = take (nat top_k) ?ranked"
    using k ok by (simp add: top_files_def py_slice_to_def similarities_distinct)
  have sub: "set ?tf \<subseteq> set ?sims"
    unfolding tf using set_take_subset [of "nat top_k" ?ranked] by (simp add: set_sorted_reverse)
  have keys: "\<And>p. p \<in> fst ` set (embeddings ix) \<Longrightarrow> map_of (metadata ix) p \<noteq> None"
    using md by (auto simp: list_all_iff dict_keys_def)
  have "list_all (\<lambda>(p, s). map_of (metadata ix) p \<noteq> None) ?tf"
    unfolding list_all_iff
  proof
    fix x assume "x \<in> set ?tf"
    with sub have "x \<in> set ?sims" by blast
    then have "fst x \<in> fst ` set (embeddings ix)" by force
    from keys [OF this] show "case x of (p, s) \<Rightarrow> map_of (metadata ix) p \<noteq> None"
      by (cases x) simp
  qed
  from build_results_ok [OF this] obtain rs where
    rs: "build_results (metadata ix) ?tf = Inr rs"
    and pairs: "map (\<lambda>r. (result_file r, score r)) rs = ?tf"
    and metas: "list_all (\<lambda>r. map_of (metadata ix) (result_file r) = Some (result_metadata r)) rs"
    by blast
  have res: "search sim model ix query top_k = Inr rs"
    using q rs by (simp add: search_def)
  have files: "map result_file rs = map fst ?tf"
    using arg_cong [OF pairs, of "map fst"] by (simp add: comp_def)
  have scores: "map score rs = map snd ?tf"
    using arg_cong [OF pairs, of "map snd"] by (simp add: comp_def)
  have len: "length rs = min (nat top_k) (length (embeddings ix))"
    using arg_cong [OF files, of length] by (simp add: tf length_sorted_reverse)
  have "sorted_wrt (\<ge>) (map snd ?ranked)" by (rule sorted_reverse_desc)
  then have "sorted_wrt (\<ge>) (take (nat top_k) (map snd ?ranked))"
    by (rule sorted_wrt_take)
  then have srt: "sorted_wrt (\<ge>) (map score rs)"
    by (simp add: scores tf take_map)
  have stab: "prefix (map result_file (filter (\<lambda>r. score r = s) rs))
                 (map fst (filter (\<lambda>(p, e). sim q e = s) (embeddings ix)))" for s
  proof -
    have "map result_file (filter (\<lambda>r. score r = s) rs)
        = map fst (filter (\<lambda>x. snd x = s) (map (\<lambda>r. (result_file r, score r)) rs))"
      by (simp add: filter_map comp_def)
    also have "\<dots> = map fst (filter (\<lambda>x. snd x = s) (take (nat top_k) ?ranked))"
      by (simp only: pairs tf)
    finally have l: "map result_file (filter (\<lambda>r. score r = s) rs)
        = map fst (filter (\<lambda>x. snd x = s) (take (nat top_k) ?ranked))" .
    have "filter (\<lambda>x. snd x = s) ?ranked = filter (\<lambda>x. snd x = s) ?sims"
      by (rule sorted_reverse_stable)
    also have "\<dots> = map (\<lambda>(p, e). (p, sim q e)) (filter (\<lambda>(p, e). sim q e = s) (embeddings ix))"
      by (simp add: filter_map comp_def case_prod_unfold)
    finally have r: "map fst (filter (\<lambda>x. snd x = s) ?ranked)
        = map fst (filter (\<lambda>(p, e). sim q e = s) (embeddings ix))"
      by (simp add: comp_def case_prod_unfold)
    have "prefix (filter (\<lambda>x. snd x = s) (take (nat top_k) ?ranked))
            (filter (\<lambda>x. snd x = s) ?ranked)"
      by (rule filter_take_prefix)
    then have "prefix (map fst (filter (\<lambda>x. snd x = s) (take (nat top_k) ?ranked)))
            (map fst (filter (\<lambda>x. snd x = s) ?ranked))"
      by (rule map_mono_prefix)
    then show ?thesis by (simp only: l r)
  qed
  have each: "list_all (\<lambda>r. \<exists>e. map_of (embeddings ix) (result_file r) = Some e
                         \<and> score r = sim q e
                         \<and> map_of (metadata ix) (result_file r) = Some (result_metadata r)) rs"
    unfolding list_all_iff
  proof
    fix r assume r: "r \<in> set rs"
    then have "(result_file r, score r) \<in> set (map (\<lambda>r. (result_file r, score r)) rs)" by force
    with pairs sub have "(result_file r, score r) \<in> set ?sims" by auto
    then obtain e where e: "(result_file r, e) \<in> set (embeddings ix)" "score r = sim q e"
      by auto
    from ok e(1) have "map_of (embeddings ix) (result_file r) = Some e"
      by (simp add: dict_ok_def)
    moreover from metas r have "map_of (metadata ix) (result_file r) = Some (result_metadata r)"
      by (simp add: list_all_iff)
    ultimately show "\<exists>e. map_of (embeddings ix) (result_file r) = Some e
                         \<and> score r = sim q e
                         \<and> map_of (metadata ix) (result_file r) = Some (result_metadata r)"
      using e(2) by blast
  qed
  from res len srt stab each show ?thesis by blast
qed

theorem search_ranked_witness:
  "dict_ok (embeddings example_indexer) \<and> example_model ''q'' = Inr [1, 0] \<and> (0::int) \<le> 2
   \<and> list_all (\<lambda>p. map_of (metadata example_indexer) p \<noteq> None)
        (dict_keys (embeddings example_indexer))
   \<and> (\<exists>results. search cosine_similarity example_model example_indexer ''q'' 2 = Inr results
      \<and> length results = 2
      \<and> sorted_wrt (\<ge>) (map score results)
      \<and> (\<forall>s. prefix (map result_file (filter (\<lambda>r. score r = s) results))
                 (map fst (filter (\<lambda>(p, e). cosine_similarity [1, 0] e = s)
                    (embeddings example_indexer)))))"
proof -
  have h1: "dict_ok (embeddings example_indexer)"
    by (simp add: example_indexer_def dict_ok_def)
  have h3: "(0::int) \<le> 2" by simp
  have h4: "list_all (\<lambda>p. map_of (metadata example_indexer) p \<noteq> None)
        (dict_keys (embeddings example_indexer))"
    by (simp add: example_indexer_def dict_keys_def)
  have len: "min (nat 2) (length (embeddings example_indexer)) = 2"
    by (simp add: example_indexer_def)
  from search_ranked [where ix = example_indexer and model = example_model
      and query = "''q''" and top_k = 2 and sim = cosine_similarity, OF h1 example_model_q h3 h4]
  obtain rs where "search cosine_similarity example_model example_indexer ''q'' 2 = Inr rs"
    "length rs = 2" "sorted_wrt (\<ge>) (map score rs)"
    "\<forall>s. prefix (map result_file (filter (\<lambda>r. score r = s) rs))
                 (map fst (filter (\<lambda>(p, e). cosine_similarity [1, 0] e = s)
                    (embeddings example_indexer)))"
    unfolding len by blast
  with h1 h3 h4 example_model_q show ?thesis by blast
qed

text \<open>
  Claim C1 as stated, for every index store, fails where an embedded path has no
  metadata entry: with \<open>top_k = 1\<close> and one stored embedding no sequence of length 1
  is returned, \<open>self.metadata[filepath]\<close> raises.
\<close>

theorem search_unmatched_counterexample:
  "search cosine_similarity example_model unmatched_indexer ''q'' 1 = Inl (KeyError ''a.py'')"
  by (simp add: search_def unmatched_indexer_def example_model_def top_files_def
      similarities_def sorted_reverse_def py_slice_to_def)

text \<open>
  Claim C8, as amended. For every index store and every query the model embeds,
  \<open>search\<close> with \<open>top_k \<le> 0\<close> returns the empty sequence when \<open>top_k = 0\<close> or the
  store holds at most \<open>-top_k\<close> embeddings. For a negative \<open>top_k\<close> and a store that
  holds more than \<open>-top_k\<close> embeddings, each with a metadata entry, it returns the ranked
  list without its last \<open>-top_k\<close> entries, which is not empty.
\<close>

theorem search_nonpositive_top_k:
  assumes q: "model query = Inr q"
    and k: "top_k \<le> 0"
  shows "(top_k = 0 \<or> int (length (embeddings ix)) \<le> - top_k \<longrightarrow>
            search sim model ix query top_k = Inr [])
     \<and> (top_k < 0 \<longrightarrow> - top_k < int (length (embeddings ix)) \<longrightarrow>
         dict_ok (embeddings ix) \<longrightarrow>
         list_all (\<lambda>p. map_of (metadata ix) p \<noteq> None) (dict_keys (embeddings ix)) \<longrightarrow>
         (\<exists>results. search sim model ix query top_k = Inr results
            \<and> length results = length (embeddings ix) - nat (- top_k)
            \<and> results \<noteq> []
            \<and> map (\<lambda>r. (result_file r, score r)) results
                = take (length (embeddings ix) - nat (- top_k))
                    (sorted_reverse snd (map (\<lambda>(p, e). (p, sim q e)) (embeddings ix)))))"
proof (intro conjI impI)
  assume n: "top_k = 0 \<or> int (length (embeddings ix)) \<le> - top_k"
  have "top_files sim q (embeddings ix) top_k = []"
  proof (cases "top_k = 0")
    case True
    then show ?thesis by (simp add: top_files_def py_slice_to_def)
  next
    case False
    with k n have neg: "top_k < 0" and le: "int (length (embeddings ix)) \<le> - top_k" by auto
    have "length (sorted_reverse snd (similarities sim q (embeddings ix)))
        \<le> length (embeddings ix)"
      by (simp add: length_sorted_reverse length_similarities_le)
    with le have "int (length (sorted_reverse snd (similarities sim q (embeddings ix)))) + top_k \<le> 0"
      by linarith
    with neg show ?thesis by (simp add: top_files_def py_slice_to_def)
  qed
  with q show "search sim model ix query top_k = Inr []" by (simp add: search_def)
next
  assume neg: "top_k < 0" and big: "- top_k < int (length (embeddings ix))"
    and ok: "dict_ok (embeddings ix)"
    and md: "list_all (\<lambda>p. map_of (metadata ix) p \<noteq> None) (dict_keys (embeddings ix))"
  let ?sims = "map (\<lambda>(p, e). (p, sim q e)) (embeddings ix)"
  let ?ranked = "sorted_reverse snd ?sims"
  let ?m = "length (embeddings ix) - nat (- top_k)"
  let ?tf = "top_files sim q (embeddings ix) top_k"
  have m: "nat (int (length (embeddings ix)) + top_k) = ?m" using neg big by linarith
  have tf: "?tf = take ?m ?ranked"
    using neg ok m
    by (simp add: top_files_def py_slice_to_def similarities_distinct length_sorted_reverse)
  have sub: "set ?tf \<subseteq> set ?sims"
    unfolding tf using set_take_subset [of ?m ?ranked] by (simp add: set_sorted_reverse)
  have keys: "\<And>p. p \<in> fst ` set (embeddings ix) \<Longrightarrow> map_of (metadata ix) p \<noteq> None"
    using md by (auto simp: list_all_iff dict_keys_def)
  have "list_all (\<lambda>(p, s). map_of (metadata ix) p \<noteq> None) ?tf"
    unfolding list_all_iff
  proof
    fix x assume "x \<in> set ?tf"
    with sub have "x \<in> set ?sims" by blast
    then have "fst x \<in> fst ` set (embeddings ix)" by force
    from keys [OF this] show "case x of (p, s) \<Rightarrow> map_of (metadata ix) p \<noteq> None"
      by (cases x) simp
  qed
  from build_results_ok [OF this] obtain rs where
    rs: "build_results (metadata ix) ?tf = Inr rs"
    and pairs: "map (\<lambda>r. (result_file r, score r)) rs = ?tf"
    by blast
  have res: "search sim model ix query top_k = Inr rs"
    using q rs by (simp add: search_def)
  have "length rs = length ?tf" using arg_cong [OF pairs, of length] by simp
  also have "\<dots> = ?m" by (simp add: tf length_sorted_reverse)
  finally have len: "length rs = ?m" .
  have "0 < ?m" using neg big by linarith
  with len have ne: "rs \<noteq> []" by auto
  from res len ne pairs tf
  show "\<exists>results. search sim model ix query top_k = Inr results
            \<and> length results = ?m
            \<and> results \<noteq> []
            \<and> map (\<lambda>r. (result_file r, score r)) results = take ?m ?ranked"
    by simp
qed

theorem search_nonpositive_top_k_witness:
  "example_model ''q'' = Inr [1, 0] \<and> (-3::int) \<le> 0 \<and> (-1::int) \<le> 0
   \<and> int (length (embeddings example_indexer)) \<le> - (-3)
   \<and> search cosine_similarity example_model example_indexer ''q'' (-3) = Inr []
   \<and> (-1::int) < 0 \<and> - (-1) < int (length (embeddings example_indexer))
   \<and> dict_ok (embeddings example_indexer)
   \<and> list_all (\<lambda>p. map_of (metadata example_indexer) p \<noteq> None)
        (dict_keys (embeddings example_indexer))
   \<and> (\<exists>results. search cosine_similarity example_model example_indexer ''q'' (-1) = Inr results
        \<and> length results = 2 \<and> results \<noteq> [])"
proof -
  have n: "int (length (embeddings example_indexer)) \<le> - (-3)"
    and big: "- (-1) < int (length (embeddings example_indexer))"
    and len: "length (embeddings example_indexer) - nat (- (-1)) = 2"
    by (simp_all add: example_indexer_def)
  have k3: "(-3::int) \<le> 0" and k1: "(-1::int) \<le> 0" and neg: "(-1::int) < 0" by simp_all
  have ok: "dict_ok (embeddings example_indexer)"
    by (simp add: example_indexer_def dict_ok_def)
  have md: "list_all (\<lambda>p. map_of (metadata example_indexer) p \<noteq> None)
        (dict_keys (embeddings example_indexer))"
    by (simp add: example_indexer_def dict_keys_def)
  from search_nonpositive_top_k [where model = example_model and query = "''q''"
      and top_k = "-3" and ix = example_indexer and sim = cosine_similarity,
      OF example_model_q k3] n
  have empty: "search cosine_similarity example_model example_indexer ''q'' (-3) = Inr []"
    by blast
  from search_nonpositive_top_k [where model = example_model and query = "''q''"
      and top_k = "-1" and ix = example_indexer and sim = cosine_similarity,
      OF example_model_q k1] neg big ok md
  obtain rs where "search cosine_similarity example_model example_indexer ''q'' (-1) = Inr rs"
    "length rs = length (embeddings example_indexer) - nat (- (-1))" "rs \<noteq> []"
    by blast
  then have "\<exists>results. search cosine_similarity example_model example_indexer ''q'' (-1)
        = Inr results \<and> length results = 2 \<and> results \<noteq> []"
    unfolding len by blast
  with example_model_q k3 k1 n empty neg big ok md show ?thesis by blast
qed

text \<open>
  Claim C8 as stated, for any \<open>top_k \<le> 0\<close>, fails: the slice \<open>[:top_k]\<close> with
  \<open>top_k = -1\<close> drops the last of three ranked files and two results are returned.
\<close>

theorem search_negative_top_k_counterexample:
  "search cosine_similarity example_model example_indexer ''q'' (-1) = Inr [
     \<lparr>result_file = ''a.py'', score = 1, result_metadata = example_meta ''a.py''\<rparr>,
     \<lparr>result_file = ''c.txt'', score = 1, result_metadata = example_meta ''c.txt''\<rparr>]"
  by (simp add: search_def example_indexer_def example_model_def top_files_def
      similarities_def sorted_reverse_def py_slice_to_def cosine_similarity_def dot_def)

text \<open>
  Claim C10. If a path that ranks among the \<open>top_k\<close> scored paths of a query has no entry
  in the metadata mapping, \<open>search\<close> raises \<open>KeyError\<close> (for such a path) instead of
  returning results; and \<open>load_index\<close> checks nothing: any pair of readable artifacts is
  loaded as it is, whatever keys the two hold.
\<close>

theorem search_key_error:
  "(model query = Inr q \<longrightarrow> (p, s) \<in> set (top_files sim q (embeddings ix) top_k) \<longrightarrow>
      map_of (metadata ix) p = None \<longrightarrow>
      (\<exists>p'. search sim model ix query top_k = Inl (KeyError p')
            \<and> p' \<in> fst ` set (top_files sim q (embeddings ix) top_k)
            \<and> map_of (metadata ix) p' = None))
   \<and> (contents d (input_path @ ''_embeddings.npz'') = Some (Npz items) \<longrightarrow>
      contents d (input_path @ ''_metadata.json'') = Some (Json doc) \<longrightarrow>
      load_index old input_path d
        = (None, \<lparr>embeddings = dict_of_items items, metadata = dict_of_items doc\<rparr>))"
proof (intro conjI impI)
  assume "model query = Inr q" "(p, s) \<in> set (top_files sim q (embeddings ix) top_k)"
    "map_of (metadata ix) p = None"
  then show "\<exists>p'. search sim model ix query top_k = Inl (KeyError p')
            \<and> p' \<in> fst ` set (top_files sim q (embeddings ix) top_k)
            \<and> map_of (metadata ix) p' = None"
    using build_results_missing [of p s "top_files sim q (embeddings ix) top_k" "metadata ix"]
    by (simp add: search_def)
next
  assume "contents d (input_path @ ''_embeddings.npz'') = Some (Npz items)"
    "contents d (input_path @ ''_metadata.json'') = Some (Json doc)"
  then show "load_index old input_path d
        = (None, \<lparr>embeddings = dict_of_items items, metadata = dict_of_items doc\<rparr>)"
    by (simp add: load_index_def np_load_def json_load_def)
qed

theorem search_key_error_witness:
  "example_model ''q'' = Inr [1, 0]
   \<and> (''a.py'', 1) \<in> set (top_files cosine_similarity [1, 0] (embeddings unmatched_indexer) 1)
   \<and> map_of (metadata unmatched_indexer) ''a.py'' = None
   \<and> search cosine_similarity example_model unmatched_indexer ''q'' 1 = Inl (KeyError ''a.py'')
   \<and> contents unmatched_disk ''lambda_index_embeddings.npz'' = Some (Npz [(''a.py'', [1, 0])])
   \<and> contents unmatched_disk ''lambda_index_metadata.json'' = Some (Json [])
   \<and> load_index init_indexer ''lambda_index'' unmatched_disk = (None, unmatched_indexer)"
proof -
  have h1: "(''a.py'', 1) \<in> set (top_files cosine_similarity [1, 0] (embeddings unmatched_indexer) 1)"
    by (simp add: unmatched_top_files)
  have h2: "map_of (metadata unmatched_indexer) ''a.py'' = None"
    by (simp add: unmatched_indexer_def)
  have d1: "contents unmatched_disk (''lambda_index'' @ ''_embeddings.npz'') = Some (Npz [(''a.py'', [1, 0])])"
    by (simp add: unmatched_disk_def)
  have d2: "contents unmatched_disk (''lambda_index'' @ ''_metadata.json'') = Some (Json [])"
    by (simp add: unmatched_disk_def)
  have items: "\<lparr>embeddings = dict_of_items [(''a.py'', [1, 0])], metadata = dict_of_items []\<rparr>
      = unmatched_indexer"
    by (simp add: unmatched_indexer_def dict_of_items_def)
  note inst = search_key_error [where model = example_model and query = "''q''" and q = "[1, 0]"
      and p = "''a.py''" and s = 1 and sim = cosine_similarity and ix = unmatched_indexer
      and top_k = 1 and d = unmatched_disk and input_path = "''lambda_index''"
      and items = "[(''a.py'', [1, 0])]" and doc = "[]" and old = init_indexer]
  from inst have "\<exists>p'. search cosine_similarity example_model unmatched_indexer ''q'' 1
        = Inl (KeyError p')
      \<and> p' \<in> fst ` set (top_files cosine_similarity [1, 0] (embeddings unmatched_indexer) 1)"
    using example_model_q h1 h2 by blast
  then have s: "search cosine_similarity example_model unmatched_indexer ''q'' 1
      = Inl (KeyError ''a.py'')"
    by (auto simp: unmatched_top_files)
  from inst d1 d2 items
  have l: "load_index init_indexer ''lambda_index'' unmatched_disk = (None, unmatched_indexer)"
    by simp
  from example_model_q h1 h2 s d1 d2 l show ?thesis by simp
qed

section \<open>Properties of \<open>save_index\<close> and \<open>load_index\<close>\<close>

lemma within_tolerance_refl: "0 \<le> eps \<Longrightarrow> within_tolerance eps v v"
  by (simp add: within_tolerance_def list_all2_same)

lemma save_index_contents:
  assumes "save_index ix output_path d = (None, d')"
  shows "contents d' (output_path @ ''_embeddings.npz'') = Some (Npz (embeddings ix))"
    and "contents d' (output_path @ ''_metadata.json'') = Some (Json (metadata ix))"
  using assms
  by (auto simp: save_index_def write_file_def split: option.splits)

text \<open>
  Claim C2. For every index store state, \<open>save_index\<close> followed by \<open>load_index\<close> of the
  same prefix into another indexer (a fresh one in particular) gives an embeddings mapping
  with the same keys and vectors within \<open>1e-6\<close> of the saved ones (they are equal), and
  the same metadata mapping. The hypotheses say that the store is a pair of dictionaries
  (distinct keys) and that \<open>save_index\<close> raised nothing.
\<close>

theorem save_load_roundtrip:
  assumes ok: "indexer_ok ix"
    and saved: "save_index ix output_path d = (None, d')"
  shows "\<exists>ix'. load_index other output_path d' = (None, ix')
      \<and> set (dict_keys (embeddings ix')) = set (dict_keys (embeddings ix))
      \<and> list_all (\<lambda>k. \<exists>v v'. map_of (embeddings ix) k = Some v
                            \<and> map_of (embeddings ix') k = Some v'
                            \<and> within_tolerance (1 / 1000000) v v')
           (dict_keys (embeddings ix))
      \<and> metadata ix' = metadata ix
      \<and> embeddings ix' = embeddings ix"
proof -
  let ?ix' = "other\<lparr>embeddings := embeddings ix, metadata := metadata ix\<rparr>"
  from ok have e: "dict_of_items (embeddings ix) = embeddings ix"
    and m: "dict_of_items (metadata ix) = metadata ix"
    by (simp_all add: indexer_ok_def dict_of_items_distinct)
  have load: "load_index other output_path d' = (None, ?ix')"
    using save_index_contents [OF saved] e m
    by (simp add: load_index_def np_load_def json_load_def)
  have "list_all (\<lambda>k. \<exists>v v'. map_of (embeddings ix) k = Some v
                            \<and> map_of (embeddings ?ix') k = Some v'
                            \<and> within_tolerance (1 / 1000000) v v')
           (dict_keys (embeddings ix))"
    unfolding list_all_iff
  proof
    fix k assume "k \<in> set (dict_keys (embeddings ix))"
    then obtain v where "map_of (embeddings ix) k = Some v"
      by (auto simp: dict_keys_def dest: weak_map_of_SomeI)
    then show "\<exists>v v'. map_of (embeddings ix) k = Some v
                            \<and> map_of (embeddings ?ix') k = Some v'
                            \<and> within_tolerance (1 / 1000000) v v'"
      by (simp add: within_tolerance_refl)
  qed
  with load show ?thesis by simp
qed

theorem save_load_roundtrip_witness:
  "indexer_ok example_indexer
   \<and> fst (save_index example_indexer ''lambda_index'' empty_disk) = None
   \<and> load_index init_indexer ''lambda_index''
        (snd (save_index example_indexer ''lambda_index'' empty_disk))
      = (None, example_indexer)"
proof -
  have ok: "indexer_ok example_indexer"
    by (simp add: indexer_ok_def dict_ok_def example_indexer_def)
  have f: "fst (save_index example_indexer ''lambda_index'' empty_disk) = None"
    by (simp add: save_index_def write_file_def empty_disk_def)
  then have saved: "save_index example_indexer ''lambda_index'' empty_disk
      = (None, snd (save_index example_indexer ''lambda_index'' empty_disk))"
    by (metis prod.collapse)
  from save_load_roundtrip [OF ok saved, of init_indexer]
  obtain ix' where l: "load_index init_indexer ''lambda_index''
        (snd (save_index example_indexer ''lambda_index'' empty_disk)) = (None, ix')"
    and "metadata ix' = metadata example_indexer" "embeddings ix' = embeddings example_indexer"
    by blast
  then have "ix' = example_indexer" by simp
  with ok f l show ?thesis by simp
qed

text \<open>
  Claim C6, as amended. \<open>load_index\<close> fails, with the \<open>FileNotFoundError\<close> of the
  missing file raised to its caller, when one of the two artifacts is missing; when only
  the metadata document is missing the embeddings mapping has been replaced by then. It
  compares no keys: two readable artifacts load without error.
\<close>

theorem load_index_outcomes:
  "(contents d (input_path @ ''_embeddings.npz'') = None \<longrightarrow>
      load_index ix input_path d
        = (Some (FileNotFoundError (input_path @ ''_embeddings.npz'')), ix))
   \<and> (contents d (input_path @ ''_embeddings.npz'') = Some (Npz items) \<longrightarrow>
      contents d (input_path @ ''_metadata.json'') = None \<longrightarrow>
      load_index ix input_path d
        = (Some (FileNotFoundError (input_path @ ''_metadata.json'')),
           ix\<lparr>embeddings := dict_of_items items\<rparr>))
   \<and> (contents d (input_path @ ''_embeddings.npz'') = Some (Npz items) \<longrightarrow>
      contents d (input_path @ ''_metadata.json'') = Some (Json doc) \<longrightarrow>
      fst (load_index ix input_path d) = None)"
  by (simp add: load_index_def np_load_def json_load_def)

theorem load_index_outcomes_witness:
  "contents metadata_only_disk ''lambda_index_embeddings.npz'' = None
   \<and> load_index init_indexer ''lambda_index'' metadata_only_disk
       = (Some (FileNotFoundError ''lambda_index_embeddings.npz''), init_indexer)
   \<and> contents vectors_only_disk ''lambda_index_embeddings.npz'' = Some (Npz [(''a.py'', [1, 0])])
   \<and> contents vectors_only_disk ''lambda_index_metadata.json'' = None
   \<and> load_index init_indexer ''lambda_index'' vectors_only_disk
       = (Some (FileNotFoundError ''lambda_index_metadata.json''), unmatched_indexer)
   \<and> contents unmatched_disk ''lambda_index_embeddings.npz'' = Some (Npz [(''a.py'', [1, 0])])
   \<and> contents unmatched_disk ''lambda_index_metadata.json'' = Some (Json [])
   \<and> fst (load_index init_indexer ''lambda_index'' unmatched_disk) = None"
proof -
  have a: "contents metadata_only_disk (''lambda_index'' @ ''_embeddings.npz'') = None"
    by (simp add: metadata_only_disk_def)
  have b: "contents vectors_only_disk (''lambda_index'' @ ''_embeddings.npz'')
      = Some (Npz [(''a.py'', [1, 0])])"
    and c: "contents vectors_only_disk (''lambda_index'' @ ''_metadata.json'') = None"
    by (simp_all add: vectors_only_disk_def)
  have d: "contents unmatched_disk (''lambda_index'' @ ''_embeddings.npz'')
      = Some (Npz [(''a.py'', [1, 0])])"
    and e: "contents unmatched_disk (''lambda_index'' @ ''_metadata.json'') = Some (Json [])"
    by (simp_all add: unmatched_disk_def)
  have u: "init_indexer\<lparr>embeddings := dict_of_items [(''a.py'', [1, 0])]\<rparr> = unmatched_indexer"
    by (simp add: init_indexer_def unmatched_indexer_def dict_of_items_def)
  from load_index_outcomes [where d = metadata_only_disk and input_path = "''lambda_index''"
      and ix = init_indexer] a
  have r1: "load_index init_indexer ''lambda_index'' metadata_only_disk
       = (Some (FileNotFoundError ''lambda_index_embeddings.npz''), init_indexer)" by simp
  from load_index_outcomes [where d = vectors_only_disk and input_path = "''lambda_index''"
      and ix = init_indexer and items = "[(''a.py'', [1, 0])]"] b c u
  have r2: "load_index init_indexer ''lambda_index'' vectors_only_disk
       = (Some (FileNotFoundError ''lambda_index_metadata.json''), unmatched_indexer)" by simp
  from load_index_outcomes [where d = unmatched_disk and input_path = "''lambda_index''"
      and ix = init_indexer and items = "[(''a.py'', [1, 0])]" and doc = "[]"] d e
  have r3: "fst (load_index init_indexer ''lambda_index'' unmatched_disk) = None" by simp
  from a b c d e r1 r2 r3 show ?thesis by simp
qed

text \<open>
  Claim C6 as stated fails on a mismatched pair: the vector container holds the key
  \<open>a.py\<close>, the metadata document holds no key, and \<open>load_index\<close> returns normally.
\<close>

theorem load_index_unmatched_counterexample:
  "dict_keys (embeddings unmatched_indexer) = [''a.py'']
   \<and> dict_keys (metadata unmatched_indexer) = []
   \<and> load_index init_indexer ''lambda_index'' unmatched_disk = (None, unmatched_indexer)"
  by (simp add: load_index_def np_load_def json_load_def unmatched_disk_def
      unmatched_indexer_def init_indexer_def dict_of_items_def dict_keys_def)

section \<open>Properties of \<open>embed_file\<close> and \<open>index_project\<close>\<close>

lemma chunk_text_nonempty: "chunk_text t m \<noteq> []"
  by (simp add: chunk_text_def Let_def split: prod.splits)

lemma embed_chunks_all:
  "map model chunks = map Inr vs \<Longrightarrow> embed_chunks model chunks = Inr vs"
proof (induction chunks arbitrary: vs)
  case Nil
  then show ?case by simp
next
  case (Cons c chunks)
  then obtain v vs' where "vs = v # vs'" "model c = Inr v" "map model chunks = map Inr vs'"
    by (cases vs) auto
  with Cons.IH [of vs'] show ?case by simp
qed

lemma foldl_vec_add:
  "list_all (\<lambda>v. length v = n) as \<Longrightarrow> length a = n \<Longrightarrow>
   length (foldl vec_add a as) = n \<and>
   (\<forall>i<n. foldl vec_add a as ! i = a ! i + sum_list (map (\<lambda>v. v ! i) as))"
proof (induction as arbitrary: a)
  case Nil
  then show ?case by simp
next
  case (Cons b as)
  then have b: "length b = n" and rest: "list_all (\<lambda>v. length v = n) as" by simp_all
  have len: "length (vec_add a b) = n" using Cons.prems(2) b by (simp add: vec_add_def)
  have nth: "\<And>i. i < n \<Longrightarrow> vec_add a b ! i = a ! i + b ! i"
    using Cons.prems(2) b by (simp add: vec_add_def)
  from Cons.IH [OF rest len] nth show ?case by (simp add: add.assoc)
qed

lemma np_mean_axis0_elementwise:
  assumes "list_all (\<lambda>v. length v = n) vs" and "vs \<noteq> []"
  shows "np_mean_axis0 vs = Inr (elementwise_mean n vs)"
proof -
  from assms obtain a as where vs: "vs = a # as" by (cases vs) auto
  with assms have a: "length a = n" and as: "list_all (\<lambda>v. length v = n) as" by simp_all
  from as a have same: "list_all (\<lambda>b. length b = length a) as" by simp
  from foldl_vec_add [OF as a]
  have len: "length (foldl vec_add a as) = n"
    and nth: "\<And>i. i < n \<Longrightarrow> foldl vec_add a as ! i = a ! i + sum_list (map (\<lambda>v. v ! i) as)"
    by simp_all
  have "map (\<lambda>x. x / real (length vs)) (foldl vec_add a as) = elementwise_mean n vs"
    by (rule nth_equalityI) (simp_all add: len nth elementwise_mean_def vs)
  with same vs show ?thesis by (simp add: np_mean_axis0_def)
qed

lemma chunk_loop_below:
  "list_all is_token (cur @ ws) \<Longrightarrow> int (length cur + length ws) < m \<Longrightarrow>
   chunk_loop m ws chunks cur = (chunks, cur @ ws)"
proof (induction ws arbitrary: cur)
  case Nil
  then show ?case by simp
next
  case (Cons w ws)
  from Cons.prems have tok: "list_all is_token (cur @ [w])" by simp
  from Cons.prems have "\<not> m \<le> int (length (cur @ [w]))" by simp
  moreover from Cons.IH [of "cur @ [w]"] Cons.prems
  have "chunk_loop m ws chunks (cur @ [w]) = (chunks, (cur @ [w]) @ ws)" by simp
  ultimately show ?case using tok by (simp add: str_split_join_tokens)
qed

lemma chunk_loop_reach:
  "list_all is_token (cur @ [w]) \<Longrightarrow> m \<le> int (length cur + 1) \<Longrightarrow>
   chunk_loop m (w # ws) chunks cur = chunk_loop m ws (chunks @ [str_join '' '' (cur @ [w])]) []"
  by (simp add: str_split_join_tokens)

lemma chunk_loop_append:
  "chunk_loop m (ws1 @ ws2) chunks cur =
     chunk_loop m ws2 (fst (chunk_loop m ws1 chunks cur)) (snd (chunk_loop m ws1 chunks cur))"
  by (induction m ws1 chunks cur rule: chunk_loop.induct) (simp_all add: Let_def)

lemma is_token_a: "is_token ''a''" and is_token_bb: "is_token ''bb''"
  by (simp_all add: is_token_def isspace_def)

lemma long_text_chunks:
  "chunk_text long_text 512 = [str_join '' '' (replicate 512 ''a''), ''bb'']"
proof -
  have toks: "list_all is_token (replicate 512 ''a'' @ [''bb''])"
    using is_token_a is_token_bb by (simp add: list_all_iff)
  then have words: "str_split long_text = replicate 512 ''a'' @ [''bb'']"
    by (simp add: long_text_def str_split_join_tokens)
  have "(512::nat) = Suc 511" by simp
  then have "replicate 512 ''a'' = ''a'' # replicate 511 ''a''"
    by (simp only: replicate_Suc)
  then have r: "replicate 512 ''a'' = replicate 511 ''a'' @ [''a'']"
    by (simp only: replicate_append_same)
  have t511: "list_all is_token ([] @ replicate 511 ''a'')"
    using is_token_a by (simp add: list_all_iff)
  have l1: "chunk_loop 512 (replicate 511 ''a'') [] [] = ([], replicate 511 ''a'')"
    using chunk_loop_below [OF t511, of 512 "[]"] by simp
  have t512: "list_all is_token (replicate 511 ''a'' @ [''a''])"
    using is_token_a by (simp add: list_all_iff)
  have l2: "chunk_loop 512 [''a'', ''bb''] [] (replicate 511 ''a'')
      = chunk_loop 512 [''bb''] ([] @ [str_join '' '' (replicate 511 ''a'' @ [''a''])]) []"
    using chunk_loop_reach [OF t512, of 512 "[''bb'']" "[]"] by simp
  have l3: "chunk_loop 512 [''bb''] [str_join '' '' (replicate 512 ''a'')] []
      = ([str_join '' '' (replicate 512 ''a'')], [''bb''])"
    using chunk_loop_below [of "[]" "[''bb'']" 512 "[str_join '' '' (replicate 512 ''a'')]"]
      is_token_bb by simp
  have "replicate 512 ''a'' @ [''bb''] = replicate 511 ''a'' @ [''a'', ''bb'']"
    by (simp add: r)
  then have "chunk_loop 512 (replicate 512 ''a'' @ [''bb'']) [] []
      = chunk_loop 512 [''a'', ''bb''] [] (replicate 511 ''a'')"
    by (simp only: chunk_loop_append l1 fst_conv snd_conv)
  also have "\<dots> = ([str_join '' '' (replicate 512 ''a'')], [''bb''])"
    using l2 l3 by (simp only: r [symmetric] append_Nil)
  finally show ?thesis
    by (simp add: chunk_text_def words)
qed

lemma index_files_all:
  "index_files model fs pp root_dir names ix =
     index_all model fs pp
       (map (\<lambda>name. (root_dir, name))
          (filter (\<lambda>name. List.member extensions (path_suffix name)) names)) ix"
  by (induction names arbitrary: ix) (simp_all add: index_all_def)

lemma index_all_append:
  "index_all model fs pp (cs @ ds) ix = index_all model fs pp ds (index_all model fs pp cs ix)"
  by (simp add: index_all_def)

lemma index_walk_all:
  "index_walk model fs pp walk ix =
     index_all model fs pp
       (concat (map (\<lambda>(root_dir, names).
                  map (\<lambda>name. (root_dir, name))
                    (filter (\<lambda>name. List.member extensions (path_suffix name)) names)) walk)) ix"
proof (induction walk arbitrary: ix)
  case Nil
  show ?case by (simp add: index_all_def)
next
  case (Cons x walk)
  obtain root_dir names where x: "x = (root_dir, names)" by (cases x)
  show ?case using Cons.IH by (simp add: x index_files_all index_all_append)
qed

lemma index_project_candidates:
  "index_project model fs pp ix = index_all model fs pp (candidates fs pp) ix"
  by (simp add: index_project_def candidates_def index_walk_all)


lemma suffix_a_py: "path_suffix ''a.py'' = ''.py''"
  and suffix_bad_py: "path_suffix ''bad.py'' = ''.py''"
  and suffix_notes_bin: "path_suffix ''notes.bin'' = ''.bin''"
  and suffix_big_txt: "path_suffix ''big.txt'' = ''.txt''"
  by (simp_all add: path_suffix_def path_name_def path_components_def Let_def)

lemma example_candidates:
  "candidates example_fs ''/p''
     = [(''/p'', ''a.py'')] @ (''/p'', ''bad.py'') # [(''/p/src'', ''big.txt'')]"
  by (simp add: candidates_def example_fs_def skipped_dirs_def extensions_def os_path_join_def
      suffix_a_py suffix_bad_py suffix_notes_bin suffix_big_txt)

lemma deleted_candidates:
  "candidates deleted_fs ''/p'' = [(''/p'', ''bad.py''), (''/p/src'', ''big.txt'')]"
  by (simp add: candidates_def deleted_fs_def skipped_dirs_def extensions_def os_path_join_def
      suffix_bad_py suffix_notes_bin suffix_big_txt)

lemma a_py_chunks: "chunk_text ''alpha beta'' 512 = [''alpha beta'']"
  by (simp add: chunk_text_def str_split_def isspace_def)

lemma a_py_words: "str_split ''alpha beta'' = [''alpha'', ''beta'']"
  by (simp add: str_split_def isspace_def)

lemma word_count_big:
  "map word_count_model (chunk_text long_text 512) = map Inr [[512, 1], [1, 1]]"
proof -
  have "list_all is_token (replicate 512 ''a'')"
    using is_token_a by (simp add: list_all_iff)
  then have "str_split (str_join '' '' (replicate 512 ''a'')) = replicate 512 ''a''"
    by (rule str_split_join_tokens)
  moreover have "str_split ''bb'' = [''bb'']" by (rule str_split_token [OF is_token_bb])
  ultimately show ?thesis by (simp add: long_text_chunks word_count_model_def)
qed

lemma mean_big: "elementwise_mean 2 [[512, 1], [1, 1]] = [513 / 2, 1]"
  by (simp add: elementwise_mean_def upt_rec numeral_2_eq_2)

lemma embed_a_py: "embed_file word_count_model fs ''/p/a.py'' = Inr [2, 1]"
  if "read_file fs ''/p/a.py'' = Inr ''alpha beta''"
  using that
  by (simp add: embed_file_def a_py_chunks word_count_model_def a_py_words np_mean_axis0_def)

lemma embed_bad_py: "embed_file model fs ''/p/bad.py'' = Inl (OSError ''/p/bad.py'')"
  if "read_file fs ''/p/bad.py'' = Inl (OSError ''/p/bad.py'')"
  using that by (simp add: embed_file_def)

lemma join_p: "os_path_join ''/p'' ''a.py'' = ''/p/a.py''"
  "os_path_join ''/p'' ''bad.py'' = ''/p/bad.py''"
  "os_path_join ''/p/src'' ''big.txt'' = ''/p/src/big.txt''"
  by (simp_all add: os_path_join_def)

lemma embed_big_txt: "embed_file word_count_model fs ''/p/src/big.txt'' = Inr [513 / 2, 1]"
  if "read_file fs ''/p/src/big.txt'' = Inr long_text"
proof -
  have "embed_chunks word_count_model (chunk_text long_text 512) = Inr [[512, 1], [1, 1]]"
    by (rule embed_chunks_all [OF word_count_big])
  moreover have "np_mean_axis0 [[512, 1], [1, 1]] = Inr (elementwise_mean 2 [[512, 1], [1, 1]])"
    by (rule np_mean_axis0_elementwise) simp_all
  ultimately show ?thesis using that by (simp add: embed_file_def mean_big)
qed

lemma relpaths: "relpath ''/p/a.py'' ''/p'' = ''a.py''"
  "relpath ''/p/src/big.txt'' ''/p'' = ''src/big.txt''"
  by (simp_all add: relpath_def)

lemma index_a_py:
  "index_file word_count_model example_fs ''/p'' ''/p'' ''a.py'' ix
     = ix\<lparr>embeddings := AList.update ''a.py'' [2, 1] (embeddings ix),
           metadata := AList.update ''a.py''
             \<lparr>absolute_path = ''/p/a.py'', extension = ''.py'', file_size = 10\<rparr> (metadata ix)\<rparr>"
  by (simp add: index_file_def Let_def join_p embed_a_py relpaths suffix_a_py example_fs_def)

lemma index_big_txt:
  "read_file fs ''/p/src/big.txt'' = Inr long_text \<Longrightarrow> getsize fs ''/p/src/big.txt'' = Inr 1025 \<Longrightarrow>
   index_file word_count_model fs ''/p'' ''/p/src'' ''big.txt'' ix
     = ix\<lparr>embeddings := AList.update ''src/big.txt'' [513 / 2, 1] (embeddings ix),
           metadata := AList.update ''src/big.txt''
             \<lparr>absolute_path = ''/p/src/big.txt'', extension = ''.txt'', file_size = 1025\<rparr>
             (metadata ix)\<rparr>"
  by (simp add: index_file_def Let_def join_p embed_big_txt relpaths suffix_big_txt)

lemma index_bad_py:
  "read_file fs ''/p/bad.py'' = Inl (OSError ''/p/bad.py'') \<Longrightarrow>
   index_file model fs ''/p'' ''/p'' ''bad.py'' ix = ix"
  by (simp add: index_file_def join_p embed_bad_py)

lemma example_fs_reads:
  "read_file example_fs ''/p/src/big.txt'' = Inr long_text"
  "getsize example_fs ''/p/src/big.txt'' = Inr 1025"
  "read_file example_fs ''/p/bad.py'' = Inl (OSError ''/p/bad.py'')"
  by (simp_all add: example_fs_def)

lemma deleted_fs_reads:
  "read_file deleted_fs ''/p/src/big.txt'' = Inr long_text"
  "getsize deleted_fs ''/p/src/big.txt'' = Inr 1025"
  "read_file deleted_fs ''/p/bad.py'' = Inl (OSError ''/p/bad.py'')"
  by (simp_all add: deleted_fs_def)

lemma should_index_a_py: "should_index ''/p/a.py''"
  by (simp add: should_index_def path_parts_def path_components_def path_suffix_def
      path_name_def skipped_dirs_def extensions_def Let_def)

lemma index_file_keeps_keys:
  "set (dict_keys (embeddings ix))
     \<subseteq> set (dict_keys (embeddings (index_file model fs pp root_dir name ix)))
   \<and> set (dict_keys (metadata ix))
     \<subseteq> set (dict_keys (metadata (index_file model fs pp root_dir name ix)))"
  by (auto simp: index_file_def Let_def dict_keys_def dom_update split: sum.splits)

lemma index_all_keeps_keys:
  "set (dict_keys (embeddings ix)) \<subseteq> set (dict_keys (embeddings (index_all model fs pp cs ix)))
   \<and> set (dict_keys (metadata ix)) \<subseteq> set (dict_keys (metadata (index_all model fs pp cs ix)))"
proof (induction cs arbitrary: ix)
  case Nil
  show ?case by (simp add: index_all_def)
next
  case (Cons c cs)
  obtain root_dir name where c: "c = (root_dir, name)" by (cases c)
  have step: "index_all model fs pp (c # cs) ix
      = index_all model fs pp cs (index_file model fs pp root_dir name ix)"
    by (simp add: index_all_def c)
  from index_file_keeps_keys [of ix model fs pp root_dir name]
    Cons.IH [of "index_file model fs pp root_dir name ix"]
  show ?case unfolding step by blast
qed

lemma index_project_keeps_keys:
  "set (dict_keys (embeddings ix)) \<subseteq> set (dict_keys (embeddings (index_project model fs pp ix)))
   \<and> set (dict_keys (metadata ix)) \<subseteq> set (dict_keys (metadata (index_project model fs pp ix)))"
  by (simp only: index_project_candidates index_all_keeps_keys)

lemma index_example_fs:
  "index_project word_count_model example_fs ''/p'' init_indexer = indexed_example"
  by (simp add: index_project_candidates example_candidates index_all_def index_a_py
      index_bad_py index_big_txt example_fs_reads init_indexer_def indexed_example_def)

lemma reindex_after_delete:
  "index_project word_count_model deleted_fs ''/p'' indexed_example = indexed_example"
  by (simp add: index_project_candidates deleted_candidates index_all_def index_bad_py
      index_big_txt deleted_fs_reads indexed_example_def)

text \<open>
  Claim C4. For every file that is read and whose chunks all embed, to vectors of one
  dimension \<open>n\<close>, \<open>embed_file\<close> returns the element-wise arithmetic mean of the chunk
  vectors, each chunk counting once whatever its length, and that vector is what
  \<open>index_project\<close> stores under the file's relative path.
\<close>

theorem embed_file_mean:
  assumes rd: "read_file fs (os_path_join root_dir name) = Inr content"
    and emb: "map model (chunk_text content 512) = map Inr chunk_vectors"
    and dim: "list_all (\<lambda>v. length v = n) chunk_vectors"
  shows "embed_file model fs (os_path_join root_dir name) = Inr (elementwise_mean n chunk_vectors)
    \<and> map_of (embeddings (index_file model fs pp root_dir name ix))
         (relpath (os_path_join root_dir name) pp)
       = Some (elementwise_mean n chunk_vectors)"
proof -
  from emb have "length (chunk_text content 512) = length chunk_vectors"
    by (metis length_map)
  with chunk_text_nonempty [of content 512] have ne: "chunk_vectors \<noteq> []" by auto
  have ef: "embed_file model fs (os_path_join root_dir name)
      = Inr (elementwise_mean n chunk_vectors)"
    using rd embed_chunks_all [OF emb] np_mean_axis0_elementwise [OF dim ne]
    by (simp add: embed_file_def)
  then show ?thesis
    by (simp add: index_file_def Let_def update_conv' split: sum.splits)
qed

theorem embed_file_mean_witness:
  "read_file example_fs (os_path_join ''/p/src'' ''big.txt'') = Inr long_text
   \<and> map word_count_model (chunk_text long_text 512) = map Inr [[512, 1], [1, 1]]
   \<and> list_all (\<lambda>v. length v = 2) [[512, 1], [1, 1 :: real]]
   \<and> embed_file word_count_model example_fs ''/p/src/big.txt'' = Inr [513 / 2, 1]
   \<and> map_of (embeddings (index_file word_count_model example_fs ''/p'' ''/p/src'' ''big.txt''
                 init_indexer)) ''src/big.txt''
       = Some [513 / 2, 1]"
proof -
  have rd: "read_file example_fs (os_path_join ''/p/src'' ''big.txt'') = Inr long_text"
    by (simp add: example_fs_def join_p)
  have dim: "list_all (\<lambda>v. length v = 2) [[512, 1], [1, 1 :: real]]" by simp
  have rel: "relpath ''/p/src/big.txt'' ''/p'' = ''src/big.txt''"
    by (simp add: relpath_def)
  from embed_file_mean [OF rd word_count_big dim, of "''/p''" init_indexer]
  show ?thesis using rd word_count_big by (simp add: join_p mean_big rel)
qed



text \<open>
  Claim C5 against the code. \<open>indexed_example\<close> is the index of a tree that holds
  \<open>a.py\<close>. After \<open>a.py\<close> is deleted, the deletion event triggers a re-index that completes
  and is saved (the debounce timestamp advances to 10), and both the embedding and the
  metadata entry of \<open>a.py\<close> are still in the index: \<open>index_project\<close> only ever adds or
  overwrites entries (\<open>index_project_keeps_keys\<close>).
\<close>

theorem deleted_file_stays_indexed:
  "index_project word_count_model example_fs ''/p'' init_indexer = indexed_example
   \<and> file_names (listing example_fs) = [''a.py'', ''bad.py'', ''notes.bin'']
   \<and> file_names (listing deleted_fs) = [''bad.py'', ''notes.bin'']
   \<and> fst (on_deleted word_count_model deleted_fs 10 (init_handler indexed_example ''/p'')
          empty_disk \<lparr>src_path = ''/p/a.py'', is_directory = False\<rparr>)
       = \<lparr>indexer = indexed_example, project_path = ''/p'', last_reindex = 10,
          reindex_delay = 2\<rparr>
   \<and> contents (snd (on_deleted word_count_model deleted_fs 10
          (init_handler indexed_example ''/p'') empty_disk
          \<lparr>src_path = ''/p/a.py'', is_directory = False\<rparr>)) ''lambda_index_embeddings.npz''
       = Some (Npz (embeddings indexed_example))
   \<and> map_of (embeddings indexed_example) ''a.py'' = Some [2, 1]
   \<and> map_of (metadata indexed_example) ''a.py''
       = Some \<lparr>absolute_path = ''/p/a.py'', extension = ''.py'', file_size = 10\<rparr>"
  by (simp add: index_example_fs on_deleted_def trigger_reindex_def init_handler_def
      should_index_a_py reindex_after_delete save_index_def write_file_def empty_disk_def)
    (simp add: indexed_example_def deleted_fs_def example_fs_def)

section \<open>Properties of the watcher\<close>

text \<open>
  Claim C9, as amended. An event that arrives while \<open>current_time - last_reindex\<close>, the
  time between the event's clock reading and the recorded timestamp, is strictly below
  \<open>reindex_delay\<close> leaves the handler, its indexer and the disk exactly as they were: no
  re-index, nothing recorded for later. The recorded timestamp changes only when the
  event is relevant, the window has passed, and \<open>index_project\<close> and \<open>save_index\<close> ran
  without error; it then becomes \<open>current_time\<close>, the clock reading taken before the
  re-index ran. The default window is 2 seconds.
\<close>

theorem trigger_reindex_debounce:
  "(current_time - last_reindex h < reindex_delay h \<longrightarrow>
      trigger_reindex model fs current_time h d ev = (h, d)
      \<and> on_modified model fs current_time h d ev = (h, d)
      \<and> on_created model fs current_time h d ev = (h, d)
      \<and> on_deleted model fs current_time h d ev = (h, d))
   \<and> (last_reindex (fst (trigger_reindex model fs current_time h d ev)) \<noteq> last_reindex h \<longrightarrow>
      \<not> current_time - last_reindex h < reindex_delay h
      \<and> should_index (src_path ev)
      \<and> fst (save_index (index_project model fs (project_path h) (indexer h))
               ''lambda_index'' d) = None
      \<and> last_reindex (fst (trigger_reindex model fs current_time h d ev)) = current_time)
   \<and> (reindex_runs current_time h ev \<longrightarrow>
      fst (save_index (index_project model fs (project_path h) (indexer h))
             ''lambda_index'' d) = None \<longrightarrow>
      last_reindex (fst (trigger_reindex model fs current_time h d ev)) = current_time)
   \<and> reindex_delay (init_handler ix path) = 2"
  by (auto simp: trigger_reindex_def on_modified_def on_created_def on_deleted_def
      init_handler_def reindex_runs_def Let_def split: prod.splits option.splits if_splits)

theorem trigger_reindex_debounce_witness:
  "(101.5 :: real) - last_reindex recent_handler < reindex_delay recent_handler
   \<and> trigger_reindex word_count_model deleted_fs 101.5 recent_handler empty_disk
        \<lparr>src_path = ''/p/a.py'', is_directory = False\<rparr> = (recent_handler, empty_disk)
   \<and> on_deleted word_count_model deleted_fs 101.5 recent_handler empty_disk
        \<lparr>src_path = ''/p/a.py'', is_directory = False\<rparr> = (recent_handler, empty_disk)
   \<and> last_reindex (fst (trigger_reindex word_count_model deleted_fs 102 recent_handler
        empty_disk \<lparr>src_path = ''/p/a.py'', is_directory = False\<rparr>))
       \<noteq> last_reindex recent_handler
   \<and> last_reindex (fst (trigger_reindex word_count_model deleted_fs 102 recent_handler
        empty_disk \<lparr>src_path = ''/p/a.py'', is_directory = False\<rparr>)) = 102
   \<and> should_index ''/p/a.py''"
proof -
  let ?ev = "\<lparr>src_path = ''/p/a.py'', is_directory = False\<rparr>"
  have within: "(101.5 :: real) - last_reindex recent_handler < reindex_delay recent_handler"
    by (simp add: recent_handler_def)
  have moved: "last_reindex (fst (trigger_reindex word_count_model deleted_fs 102 recent_handler
        empty_disk ?ev)) \<noteq> last_reindex recent_handler"
    by (simp add: trigger_reindex_def recent_handler_def should_index_a_py save_index_def
        write_file_def empty_disk_def Let_def)
  from trigger_reindex_debounce [where current_time = "101.5" and h = recent_handler
      and model = word_count_model and fs = deleted_fs and d = empty_disk and ev = ?ev] within
  have dropped: "trigger_reindex word_count_model deleted_fs 101.5 recent_handler empty_disk ?ev
        = (recent_handler, empty_disk)"
    "on_deleted word_count_model deleted_fs 101.5 recent_handler empty_disk ?ev
        = (recent_handler, empty_disk)"
    by simp_all
  from trigger_reindex_debounce [where current_time = 102 and h = recent_handler
      and model = word_count_model and fs = deleted_fs and d = empty_disk and ev = ?ev] moved
  have "should_index (src_path ?ev)
      \<and> last_reindex (fst (trigger_reindex word_count_model deleted_fs 102 recent_handler
        empty_disk ?ev)) = 102"
    by blast
  with within dropped moved show ?thesis by simp
qed

text \<open>
  Claim C9 as stated, with the window counted from the completion of the last successful
  re-index, fails: a re-index that starts at 100 and takes 50 seconds records 100 and
  finishes at 150, and an event at 150.5, half a second after the completion, is not
  dropped but re-indexes.
\<close>

theorem trigger_reindex_window_counterexample:
  "fst (trigger_reindex word_count_model deleted_fs 100 (init_handler indexed_example ''/p'')
          empty_disk \<lparr>src_path = ''/p/a.py'', is_directory = False\<rparr>) = recent_handler
   \<and> finished_at 50 100 (init_handler indexed_example ''/p'')
        \<lparr>src_path = ''/p/a.py'', is_directory = False\<rparr> = 150
   \<and> (150.5 :: real) - 150 < reindex_delay recent_handler
   \<and> reindex_runs 150.5 recent_handler \<lparr>src_path = ''/p/a.py'', is_directory = False\<rparr>
   \<and> last_reindex (fst (trigger_reindex word_count_model deleted_fs 150.5 recent_handler
        (snd (trigger_reindex word_count_model deleted_fs 100
               (init_handler indexed_example ''/p'') empty_disk
               \<lparr>src_path = ''/p/a.py'', is_directory = False\<rparr>))
        \<lparr>src_path = ''/p/a.py'', is_directory = False\<rparr>)) = 150.5"
  by (simp add: trigger_reindex_def init_handler_def recent_handler_def should_index_a_py
      reindex_after_delete save_index_def write_file_def empty_disk_def finished_at_def
      reindex_runs_def)

end
